theory Spec2Isabelle
  imports Complex_Main "HOL-Library.Sublist"
begin

section \<open>Python values\<close>

text \<open>
  The functions of \<^verbatim>\<open>tooluniverse/utils.py\<close> work on the objects that
  \<^verbatim>\<open>json.loads\<close> produces: \<^verbatim>\<open>None\<close>, \<^verbatim>\<open>bool\<close>, \<^verbatim>\<open>int\<close>, \<^verbatim>\<open>float\<close>,
  \<^verbatim>\<open>str\<close>, \<^verbatim>\<open>list\<close> and \<^verbatim>\<open>dict\<close> with string keys. A float is a rational
  number, an infinity or NaN (every finite double is a rational; the rounding of
  arithmetic plays no role, since the code only compares floats). A NaN carries
  the identity of its object, a number: two NaN values with the same number are
  one object, since comparing containers tells one NaN object from two. A dict is
  an association list in insertion order; a Python dict has distinct keys.
  A character of a \<^typ>\<open>string\<close> stands for one code point below 256.
\<close>

datatype pyfloat = Fin rat | PosInf | NegInf | NaN nat

datatype pyval =
    VNone
  | VBool bool
  | VInt int
  | VFloat pyfloat
  | VStr string
  | VList "pyval list"
  | VDict "(string \<times> pyval) list"

type_synonym pydict = "(string \<times> pyval) list"

text \<open>The classes named in \<^verbatim>\<open>type_map\<close>, and \<^verbatim>\<open>isinstance\<close> on them:
  \<^verbatim>\<open>bool\<close> is a subclass of \<^verbatim>\<open>int\<close>, no other two of the classes are related.\<close>

datatype pytype = T_str | T_int | T_float | T_bool | T_list | T_dict

fun isinstance :: "pyval \<Rightarrow> pytype \<Rightarrow> bool" where
  "isinstance (VStr s) T_str = True"
| "isinstance (VInt i) T_int = True"
| "isinstance (VBool b) T_int = True"
| "isinstance (VFloat f) T_float = True"
| "isinstance (VBool b) T_bool = True"
| "isinstance (VList xs) T_list = True"
| "isinstance (VDict d) T_dict = True"
| "isinstance v t = False"

text \<open>\<^verbatim>\<open>type(value).__name__\<close>\<close>

fun type_name :: "pyval \<Rightarrow> string" where
  "type_name VNone = ''NoneType''"
| "type_name (VBool b) = ''bool''"
| "type_name (VInt i) = ''int''"
| "type_name (VFloat f) = ''float''"
| "type_name (VStr s) = ''str''"
| "type_name (VList xs) = ''list''"
| "type_name (VDict d) = ''dict''"

text \<open>
  Python's \<^verbatim>\<open>==\<close> on these values. Numbers (\<^verbatim>\<open>bool\<close>, \<^verbatim>\<open>int\<close>, \<^verbatim>\<open>float\<close>)
  compare by their exact numeric value, and NaN is equal to nothing, itself included.
  Lists compare element by element, dicts by size and key-wise; there two elements
  count as equal when they are identical or equal (\<^verbatim>\<open>x is y or x == y\<close>). For
  every object but a NaN, identical implies equal (\<open>identical_equal\<close> below), so
  the identity test decides only between two NaN: \<open>same_nan\<close>.
\<close>

fun is_nan :: "pyval \<Rightarrow> bool" where
  "is_nan (VFloat (NaN a)) = True"
| "is_nan v = False"

fun same_nan :: "pyval \<Rightarrow> pyval \<Rightarrow> bool" where
  "same_nan (VFloat (NaN a)) (VFloat (NaN b)) = (a = b)"
| "same_nan x y = False"

fun num_of :: "pyval \<Rightarrow> pyfloat option" where
  "num_of (VBool b) = Some (Fin (if b then 1 else 0))"
| "num_of (VInt i) = Some (Fin (of_int i))"
| "num_of (VFloat f) = Some f"
| "num_of v = None"

fun float_eq :: "pyfloat \<Rightarrow> pyfloat \<Rightarrow> bool" where
  "float_eq (Fin a) (Fin b) = (a = b)"
| "float_eq PosInf PosInf = True"
| "float_eq NegInf NegInf = True"
| "float_eq x y = False"

fun py_eq :: "pyval \<Rightarrow> pyval \<Rightarrow> bool"
  and py_eq_list :: "pyval list \<Rightarrow> pyval list \<Rightarrow> bool"
  and py_eq_items :: "pydict \<Rightarrow> pydict \<Rightarrow> bool" where
  "py_eq VNone y = (y = VNone)"
| "py_eq (VBool b) y =
     (case num_of y of None \<Rightarrow> False | Some g \<Rightarrow> float_eq (Fin (if b then 1 else 0)) g)"
| "py_eq (VInt i) y =
     (case num_of y of None \<Rightarrow> False | Some g \<Rightarrow> float_eq (Fin (of_int i)) g)"
| "py_eq (VFloat f) y =
     (case num_of y of None \<Rightarrow> False | Some g \<Rightarrow> float_eq f g)"
| "py_eq (VStr s) y = (case y of VStr t \<Rightarrow> s = t | _ \<Rightarrow> False)"
| "py_eq (VList xs) y = (case y of VList ys \<Rightarrow> py_eq_list xs ys | _ \<Rightarrow> False)"
| "py_eq (VDict a) y =
     (case y of VDict b \<Rightarrow> length a = length b \<and> py_eq_items a b | _ \<Rightarrow> False)"
| "py_eq_list [] ys = (ys = [])"
| "py_eq_list (x # xs) ys =
     (case ys of
        [] \<Rightarrow> False
      | y # ys' \<Rightarrow> (same_nan x y \<or> py_eq x y) \<and> py_eq_list xs ys')"
| "py_eq_items [] b = True"
| "py_eq_items ((k, v) # a) b =
     ((case map_of b k of None \<Rightarrow> False | Some w \<Rightarrow> same_nan v w \<or> py_eq v w)
      \<and> py_eq_items a b)"

text \<open>\<^verbatim>\<open>x != y\<close>\<close>

definition py_ne :: "pyval \<Rightarrow> pyval \<Rightarrow> bool" where
  "py_ne x y = (\<not> py_eq x y)"

text \<open>A dict has distinct keys, at every depth.\<close>

fun dict_ok :: "pyval \<Rightarrow> bool"
  and dict_ok_list :: "pyval list \<Rightarrow> bool"
  and dict_ok_items :: "pydict \<Rightarrow> bool" where
  "dict_ok (VList xs) = dict_ok_list xs"
| "dict_ok (VDict d) = (distinct (map fst d) \<and> dict_ok_items d)"
| "dict_ok v = True"
| "dict_ok_list [] = True"
| "dict_ok_list (x # xs) = (dict_ok x \<and> dict_ok_list xs)"
| "dict_ok_items [] = True"
| "dict_ok_items ((k, v) # d) = (dict_ok v \<and> dict_ok_items d)"

section \<open>Verdicts\<close>

text \<open>
  A verdict is the pair \<^verbatim>\<open>(bool, str)\<close> the validators return. Where the source
  builds the reason with an f-string, the reason keeps the interpolated object as
  data and \<open>reason_text\<close> gives the literal text in front of it.
\<close>

datatype reason =
    Literal string
  | MissingRequired "string list"
  | Unsupported string
  | InvalidParams "string list"
  | TypeMismatches "(string \<times> string \<times> string) list"
  | KeysMismatch "string set" "string set"
  | ValuesMismatch "(string \<times> pyval \<times> pyval) list"

fun reason_text :: "reason \<Rightarrow> string" where
  "reason_text (Literal s) = s"
| "reason_text (MissingRequired ps) = ''Missing required parameters: ''"
| "reason_text (Unsupported t) = ''Unsupported parameter type: ''"
| "reason_text (InvalidParams ps) = ''Invalid parameters provided: ''"
| "reason_text (TypeMismatches ms) = ''Type mismatches: ''"
| "reason_text (KeysMismatch a b) = ''Argument keys do not match. Missing in predicted: ''"
| "reason_text (ValuesMismatch ms) = ''Argument values do not match: ''"

type_synonym verdict = "bool \<times> reason"

section \<open>Calls and tool definitions\<close>

text \<open>
  A function call is the dict \<^verbatim>\<open>{"name": ..., "arguments": {...}}\<close>. A tool
  definition is read at \<^verbatim>\<open>["name"]\<close> and \<^verbatim>\<open>["parameter"]["properties"]\<close> only;
  a property is read at \<^verbatim>\<open>["type"]\<close> and \<^verbatim>\<open>.get("required", False)\<close>, so
  \<open>required\<close> may be absent.
\<close>

record function_call =
  name :: string
  arguments :: pydict

record property =
  ptype :: string
  required :: "bool option"

record tool_definition =
  tool_name :: string
  properties :: "(string \<times> property) list"

section \<open>evaluate\_function\_call\<close>

definition type_map :: "string \<Rightarrow> pytype option" where
  "type_map = map_of
     [(''string'', T_str), (''integer'', T_int), (''number'', T_float),
      (''boolean'', T_bool), (''array'', T_list), (''object'', T_dict)]"

text \<open>
  The loop over \<^verbatim>\<open>function_call["arguments"].items()\<close>: it returns from the
  function at an unsupported declared type (\<open>Inl\<close>), and otherwise ends with the
  two lists \<^verbatim>\<open>invalid_params\<close> and \<^verbatim>\<open>type_mismatches\<close>.
\<close>

fun check_params ::
  "(string \<times> property) list \<Rightarrow> pydict \<Rightarrow> string list \<Rightarrow> (string \<times> string \<times> string) list
     \<Rightarrow> reason + (string list \<times> (string \<times> string \<times> string) list)" where
  "check_params valid_params [] invalid_params type_mismatches =
     Inr (invalid_params, type_mismatches)"
| "check_params valid_params ((param, val) # rest) invalid_params type_mismatches =
     (case map_of valid_params param of
        None \<Rightarrow> check_params valid_params rest (invalid_params @ [param]) type_mismatches
      | Some d \<Rightarrow>
          (let expected_type = ptype d in
           case type_map expected_type of
             None \<Rightarrow> Inl (Unsupported expected_type)
           | Some t \<Rightarrow>
               if \<not> isinstance val t
               then check_params valid_params rest invalid_params
                      (type_mismatches @ [(param, expected_type, type_name val)])
               else check_params valid_params rest invalid_params type_mismatches))"

definition evaluate_function_call :: "tool_definition \<Rightarrow> function_call \<Rightarrow> verdict" where
  "evaluate_function_call tool_definition function_call =
     (if tool_name tool_definition \<noteq> name function_call
      then (False, Literal ''Function name does not match.'')
      else
        let required_params =
              map fst (filter (\<lambda>(key, v). required v = Some True) (properties tool_definition));
            missing_params =
              filter (\<lambda>param. map_of (arguments function_call) param = None) required_params
        in if missing_params \<noteq> [] then (False, MissingRequired missing_params)
           else
             case check_params (properties tool_definition) (arguments function_call) [] [] of
               Inl r \<Rightarrow> (False, r)
             | Inr (invalid_params, type_mismatches) \<Rightarrow>
                 if invalid_params \<noteq> [] then (False, InvalidParams invalid_params)
                 else if type_mismatches \<noteq> [] then (False, TypeMismatches type_mismatches)
                 else (True, Literal ''Function call is valid.''))"

section \<open>compare\_function\_calls\<close>

datatype error = KeyError string

text \<open>
  The loop \<^verbatim>\<open>for key in pred_arguments\<close>. \<^verbatim>\<open>gt_arguments[key]\<close> raises KeyError
  when the key is absent.
\<close>

fun mismatched ::
  "pydict \<Rightarrow> pydict \<Rightarrow> pydict \<Rightarrow> (string \<times> pyval \<times> pyval) list
     \<Rightarrow> error + (string \<times> pyval \<times> pyval) list" where
  "mismatched pred_arguments gt_arguments [] mismatched_values = Inr mismatched_values"
| "mismatched pred_arguments gt_arguments ((key, v) # rest) mismatched_values =
     (case map_of gt_arguments key of
        None \<Rightarrow> Inl (KeyError key)
      | Some g \<Rightarrow>
          if py_ne v g
          then mismatched pred_arguments gt_arguments rest (mismatched_values @ [(key, v, g)])
          else mismatched pred_arguments gt_arguments rest mismatched_values)"

definition keys :: "pydict \<Rightarrow> string set" where
  "keys d = set (map fst d)"

definition compare_function_calls ::
  "function_call \<Rightarrow> function_call \<Rightarrow> bool \<Rightarrow> bool \<Rightarrow> error + verdict" where
  "compare_function_calls pred_function_call gt_function_call compare_arguments compare_value =
     (let pred_name = name pred_function_call;
          pred_arguments = arguments pred_function_call;
          gt_name = name gt_function_call;
          gt_arguments = arguments gt_function_call
      in if pred_name \<noteq> gt_name then Inr (False, Literal ''Function names do not match.'')
         else if compare_arguments \<and> keys pred_arguments \<noteq> keys gt_arguments
         then Inr (False, KeysMismatch (keys gt_arguments - keys pred_arguments)
                                       (keys pred_arguments - keys gt_arguments))
         else if compare_value
         then (case mismatched pred_arguments gt_arguments pred_arguments [] of
                 Inl e \<Rightarrow> Inl e
               | Inr mismatched_values \<Rightarrow>
                   if mismatched_values \<noteq> [] then Inr (False, ValuesMismatch mismatched_values)
                   else Inr (True, Literal ''Function calls match.''))
         else Inr (True, Literal ''Function calls match.''))"

section \<open>Strings\<close>

text \<open>
  \<^verbatim>\<open>str.isspace\<close> on the code points below 256, \<^verbatim>\<open>str.strip()\<close>,
  \<^verbatim>\<open>str.find\<close> (the lowest index of the substring, or \<open>-1\<close>) and slicing
  \<^verbatim>\<open>s[i:j]\<close>, \<^verbatim>\<open>s[i:]\<close>, \<^verbatim>\<open>s[:j]\<close>, where a negative index counts from the
  end and every index is clamped to the string.
\<close>

definition isspace :: "char \<Rightarrow> bool" where
  "isspace c =
     (let n = (of_char c :: nat)
      in (9 \<le> n \<and> n \<le> 13) \<or> (28 \<le> n \<and> n \<le> 32) \<or> n = 133 \<or> n = 160)"

definition strip :: "string \<Rightarrow> string" where
  "strip s = rev (dropWhile isspace (rev (dropWhile isspace s)))"

fun find_from :: "string \<Rightarrow> string \<Rightarrow> int \<Rightarrow> int" where
  "find_from sub [] i = (if sub = [] then i else - 1)"
| "find_from sub (c # cs) i = (if prefix sub (c # cs) then i else find_from sub cs (i + 1))"

definition str_find :: "string \<Rightarrow> string \<Rightarrow> int" where
  "str_find s sub = find_from sub s 0"

definition slice_index :: "nat \<Rightarrow> int \<Rightarrow> nat" where
  "slice_index n i = (if i < 0 then nat (int n + i) else min n (nat i))"

definition slice :: "string \<Rightarrow> int \<Rightarrow> int \<Rightarrow> string" where
  "slice s i j =
     (let lo = slice_index (length s) i; hi = slice_index (length s) j
      in take (hi - lo) (drop lo s))"

definition slice_from :: "string \<Rightarrow> int \<Rightarrow> string" where
  "slice_from s i = drop (slice_index (length s) i) s"

definition slice_upto :: "string \<Rightarrow> int \<Rightarrow> string" where
  "slice_upto s j = take (slice_index (length s) j) s"

section \<open>Extraction\<close>

text \<open>
  The argument \<^verbatim>\<open>lst\<close> is a dict, a string or a list of strings
  (\<^verbatim>\<open>''.join\<close> of a string is the string itself). The functions return the call
  alone, or the pair of call and message when \<^verbatim>\<open>return_message\<close> is set; the
  model returns with it the lines printed, in order.

  \<^verbatim>\<open>json.loads\<close> is a parameter \<open>loads\<close> of the model: \<open>Inr v\<close> is the parsed
  value, \<open>Inl e\<close> is \<^verbatim>\<open>JSONDecodeError\<close> with message \<open>e\<close>.
\<close>

datatype raw_output = Structured pydict | Text string | Fragments "string list"

datatype ret = Ret pyval | RetMsg pyval string

type_synonym loads = "string \<Rightarrow> string + pyval"

definition esc :: string where
  "esc = [CHR 0x1B]"

definition extract_str :: "loads \<Rightarrow> string \<Rightarrow> bool \<Rightarrow> bool \<Rightarrow> string list \<times> ret" where
  "extract_str loads result_str return_message verbose =
     (let out0 = (if verbose
                  then [esc @ ''[1;34mPossible LLM outputs for function call:'' @ esc @ ''[0m ''
                          @ result_str]
                  else [])
      in case loads (strip result_str) of
           Inr function_call_json \<Rightarrow>
             (out0, if return_message then RetMsg function_call_json [] else Ret function_call_json)
         | Inl e0 \<Rightarrow>
             (let index_start = str_find result_str ''[TOOL_CALLS]'';
                  index_end0 = str_find result_str ''</s>'';
                  index_end = (if index_end0 = - 1 then str_find result_str ''<|eom_id|>''
                               else index_end0);
                  function_call_str =
                    (if index_end = - 1
                     then slice_from result_str (index_start + int (length ''[TOOL_CALLS]''))
                     else slice result_str (index_start + int (length ''[TOOL_CALLS]'')) index_end)
              in case loads (strip function_call_str) of
                   Inr function_call_json \<Rightarrow>
                     (out0, if return_message
                            then RetMsg function_call_json (slice_upto result_str index_start)
                            else Ret function_call_json)
                 | Inl e1 \<Rightarrow>
                     (let out1 = out0 @ [''Multiple function calls not implemented for 'llama' format.''];
                          index_start = str_find result_str ''<functioncall>''
                                          + int (length ''<functioncall>'');
                          index_end = str_find result_str ''</functioncall>'';
                          function_call_str = slice result_str index_start index_end
                      in case loads (strip function_call_str) of
                           Inr function_call_json \<Rightarrow> (out1, Ret function_call_json)
                         | Inl e \<Rightarrow>
                             (out1 @ [''Not a function call: '' @ e],
                              if return_message then RetMsg VNone result_str else Ret VNone))))"

fun extract_function_call_json ::
  "loads \<Rightarrow> raw_output \<Rightarrow> bool \<Rightarrow> bool \<Rightarrow> string list \<times> ret" where
  "extract_function_call_json loads (Structured d) return_message verbose =
     ([], if return_message then RetMsg (VDict d) [] else Ret (VDict d))"
| "extract_function_call_json loads (Text s) return_message verbose =
     extract_str loads s return_message verbose"
| "extract_function_call_json loads (Fragments fs) return_message verbose =
     extract_str loads (concat fs) return_message verbose"

text \<open>
  \<^verbatim>\<open>extract_function_call_json_from_qwen\<close> is defined twice in the file, with the
  same text; the second definition is the one in force. Each of its three
  \<^verbatim>\<open>try\<close> blocks after the whole-string attempt either returns, or raises
  \<^verbatim>\<open>JSONDecodeError\<close> (caught, and printed when verbose), or ends without
  returning because its markers were not found.
\<close>

datatype attempt = Returned ret | Raised string | Passed

definition tool_call_attempt :: "loads \<Rightarrow> string \<Rightarrow> bool \<Rightarrow> attempt" where
  "tool_call_attempt loads result_str return_message =
     (let tool_call_start = str_find result_str ''<tool_call>'';
          tool_call_end = str_find result_str ''</tool_call>''
      in if tool_call_start \<noteq> - 1 \<and> tool_call_end \<noteq> - 1
         then
           (let json_start = tool_call_start + int (length ''<tool_call>'');
                function_call_str = strip (slice result_str json_start tool_call_end)
            in case loads function_call_str of
                 Inl e \<Rightarrow> Raised e
               | Inr function_call_json \<Rightarrow>
                   if return_message
                   then
                     (let think_start = str_find result_str ''<think>'';
                          think_end = str_find result_str ''</think>'';
                          message =
                            (if think_start \<noteq> - 1 \<and> think_end \<noteq> - 1
                             then strip (slice result_str (think_start + int (length ''<think>''))
                                           think_end)
                             else strip (slice_upto result_str tool_call_start))
                      in Returned (RetMsg function_call_json message))
                   else Returned (Ret function_call_json))
         else Passed)"

definition bracket_attempt :: "loads \<Rightarrow> string \<Rightarrow> bool \<Rightarrow> attempt" where
  "bracket_attempt loads result_str return_message =
     (let index_start = str_find result_str ''[TOOL_CALLS]''
      in if index_start \<noteq> - 1
         then
           (let index_end0 = str_find result_str ''</s>'';
                index_end = (if index_end0 = - 1 then str_find result_str ''<|eom_id|>''
                             else index_end0);
                function_call_str =
                  (if index_end = - 1
                   then slice_from result_str (index_start + int (length ''[TOOL_CALLS]''))
                   else slice result_str (index_start + int (length ''[TOOL_CALLS]'')) index_end)
            in case loads (strip function_call_str) of
                 Inl e \<Rightarrow> Raised e
               | Inr function_call_json \<Rightarrow>
                   if return_message
                   then Returned (RetMsg function_call_json (slice_upto result_str index_start))
                   else Returned (Ret function_call_json))
         else Passed)"

definition functioncall_attempt :: "loads \<Rightarrow> string \<Rightarrow> bool \<Rightarrow> attempt" where
  "functioncall_attempt loads result_str return_message =
     (let index_start0 = str_find result_str ''<functioncall>''
      in if index_start0 \<noteq> - 1
         then
           (let index_start = index_start0 + int (length ''<functioncall>'');
                index_end = str_find result_str ''</functioncall>''
            in if index_end \<noteq> - 1
               then
                 (let function_call_str = slice result_str index_start index_end
                  in case loads (strip function_call_str) of
                       Inl e \<Rightarrow> Raised e
                     | Inr function_call_json \<Rightarrow>
                         if return_message
                         then Returned (RetMsg function_call_json
                                (slice_upto result_str (str_find result_str ''<functioncall>'')))
                         else Returned (Ret function_call_json))
               else Passed)
         else Passed)"

text \<open>What an \<^verbatim>\<open>except\<close> clause of the second function prints.\<close>

definition failed_line :: "bool \<Rightarrow> string \<Rightarrow> attempt \<Rightarrow> string list" where
  "failed_line verbose tag a =
     (case a of Raised e \<Rightarrow> (if verbose then [''Failed to parse JSON in '' @ tag @ '': '' @ e] else [])
      | _ \<Rightarrow> [])"

definition extract_qwen_str :: "loads \<Rightarrow> string \<Rightarrow> bool \<Rightarrow> bool \<Rightarrow> string list \<times> ret" where
  "extract_qwen_str loads result_str return_message verbose =
     (let out0 = (if verbose
                  then [esc @ ''[1;34mQwen LLM outputs for function call:'' @ esc @ ''[0m ''
                          @ result_str]
                  else [])
      in case loads (strip result_str) of
           Inr function_call_json \<Rightarrow>
             (out0, if return_message then RetMsg function_call_json [] else Ret function_call_json)
         | Inl e0 \<Rightarrow>
             (let a1 = tool_call_attempt loads result_str return_message
              in case a1 of
                   Returned r \<Rightarrow> (out0, r)
                 | _ \<Rightarrow>
                     (let out1 = out0 @ failed_line verbose ''<tool_call>'' a1;
                          a2 = bracket_attempt loads result_str return_message
                      in case a2 of
                           Returned r \<Rightarrow> (out1, r)
                         | _ \<Rightarrow>
                             (let out2 = out1 @ failed_line verbose ''[TOOL_CALLS]'' a2;
                                  a3 = functioncall_attempt loads result_str return_message
                              in case a3 of
                                   Returned r \<Rightarrow> (out2, r)
                                 | _ \<Rightarrow>
                                     (out2 @ failed_line verbose ''<functioncall>'' a3
                                        @ (if verbose
                                           then [''Not a valid function call format for Qwen'']
                                           else []),
                                      if return_message then RetMsg VNone result_str
                                      else Ret VNone)))))"

fun extract_function_call_json_from_qwen ::
  "loads \<Rightarrow> raw_output \<Rightarrow> bool \<Rightarrow> bool \<Rightarrow> string list \<times> ret" where
  "extract_function_call_json_from_qwen loads (Structured d) return_message verbose =
     ([], if return_message then RetMsg (VDict d) [] else Ret (VDict d))"
| "extract_function_call_json_from_qwen loads (Text s) return_message verbose =
     extract_qwen_str loads s return_message verbose"
| "extract_function_call_json_from_qwen loads (Fragments fs) return_message verbose =
     extract_qwen_str loads (concat fs) return_message verbose"

text \<open>
  \<^verbatim>\<open>print\<close> raises \<^verbatim>\<open>UnicodeEncodeError\<close> when the encoding of the output
  stream has no code for a character of the line. No \<^verbatim>\<open>except\<close> clause of the
  two functions catches it (each names \<^verbatim>\<open>JSONDecodeError\<close> only), and every
  \<^verbatim>\<open>print\<close> comes before the \<^verbatim>\<open>return\<close> of its path. So the lines above are
  what a run prints, and its pair is what it returns, when the stream can encode
  every line; otherwise the run ends in the exception, at the first line that the
  stream cannot encode, and returns nothing. The stream is the parameter
  \<open>encodable\<close>; \<open>ascii_stream\<close> is a stream whose encoding is ASCII.
\<close>

datatype print_error = UnicodeEncodeError

definition returned :: "(string \<Rightarrow> bool) \<Rightarrow> string list \<times> ret \<Rightarrow> print_error + ret" where
  "returned encodable run =
     (if list_all encodable (fst run) then Inr (snd run) else Inl UnicodeEncodeError)"

definition ascii_stream :: "string \<Rightarrow> bool" where
  "ascii_stream line = list_all (\<lambda>c. (of_char c :: nat) < 128) line"

section \<open>A JSON reader for the examples\<close>

text \<open>
  The theorems on extraction hold for every \<open>loads\<close>. The examples need one
  that can be run: \<open>json_loads\<close> reads the JSON texts whose numbers are integers and
  whose strings have no \<^verbatim>\<open>\u\<close> escape, as \<^verbatim>\<open>json.loads\<close> does (whitespace is
  space, tab, newline and carriage return; \<^verbatim>\<open>NaN\<close>, \<^verbatim>\<open>Infinity\<close> and
  \<^verbatim>\<open>-Infinity\<close> are accepted, and every \<^verbatim>\<open>NaN\<close> read is the one NaN object
  of the \<^verbatim>\<open>json\<close> module, number 0 here; a repeated key keeps its first place and
  its last value; anything left after the value is an error). On a text with a fraction, an
  exponent or a \<^verbatim>\<open>\u\<close> escape it reports an error where \<^verbatim>\<open>json.loads\<close> may
  succeed, so it is used on no such text. The message of the error is not modelled.
  The first argument of \<open>parse_value\<close> bounds the number of nested calls; twice
  the length of the text is enough, since two calls in a row consume a character.
\<close>

definition json_ws :: "char \<Rightarrow> bool" where
  "json_ws c = (c = CHR 0x20 \<or> c = CHR 0x09 \<or> c = CHR 0x0A \<or> c = CHR 0x0D)"

definition skip_ws :: "string \<Rightarrow> string" where
  "skip_ws s = dropWhile json_ws s"

definition unescape :: "char \<Rightarrow> char option" where
  "unescape e =
     (if e = CHR 0x22 then Some (CHR 0x22)
      else if e = CHR 0x5C then Some (CHR 0x5C)
      else if e = CHR ''/'' then Some (CHR ''/'')
      else if e = CHR ''b'' then Some (CHR 0x08)
      else if e = CHR ''f'' then Some (CHR 0x0C)
      else if e = CHR ''n'' then Some (CHR 0x0A)
      else if e = CHR ''r'' then Some (CHR 0x0D)
      else if e = CHR ''t'' then Some (CHR 0x09)
      else None)"

fun parse_string :: "string \<Rightarrow> (string \<times> string) option" where
  "parse_string [] = None"
| "parse_string [c] = (if c = CHR 0x22 then Some ([], []) else None)"
| "parse_string (c # e # cs) =
     (if c = CHR 0x22 then Some ([], e # cs)
      else if c = CHR 0x5C
      then (case unescape e of
              None \<Rightarrow> None
            | Some u \<Rightarrow> map_option (\<lambda>(s, r). (u # s, r)) (parse_string cs))
      else if (of_char c :: nat) < 32 then None
      else map_option (\<lambda>(s, r). (c # s, r)) (parse_string (e # cs)))"

definition is_digit :: "char \<Rightarrow> bool" where
  "is_digit c = (48 \<le> (of_char c :: nat) \<and> (of_char c :: nat) \<le> 57)"

definition digits_value :: "string \<Rightarrow> nat" where
  "digits_value ds = foldl (\<lambda>n c. 10 * n + (of_char c - 48)) 0 ds"

definition parse_nat :: "string \<Rightarrow> (nat \<times> string) option" where
  "parse_nat s =
     (let ds = takeWhile is_digit s; r = dropWhile is_digit s
      in if ds = [] \<or> (hd ds = CHR ''0'' \<and> length ds > 1) then None
         else if r \<noteq> [] \<and> (hd r = CHR ''.'' \<or> hd r = CHR ''e'' \<or> hd r = CHR ''E'') then None
         else Some (digits_value ds, r))"

definition parse_int :: "string \<Rightarrow> (int \<times> string) option" where
  "parse_int s =
     (case s of
        [] \<Rightarrow> None
      | c # cs \<Rightarrow>
          if c = CHR ''-'' then map_option (\<lambda>(n, r). (- int n, r)) (parse_nat cs)
          else map_option (\<lambda>(n, r). (int n, r)) (parse_nat s))"

primrec dict_set :: "pydict \<Rightarrow> string \<Rightarrow> pyval \<Rightarrow> pydict" where
  "dict_set [] k v = [(k, v)]"
| "dict_set (e # d) k v = (if fst e = k then (k, v) # d else e # dict_set d k v)"

fun parse_value :: "nat \<Rightarrow> string \<Rightarrow> (pyval \<times> string) option"
  and parse_elements :: "nat \<Rightarrow> pyval list \<Rightarrow> string \<Rightarrow> (pyval \<times> string) option"
  and parse_members :: "nat \<Rightarrow> pydict \<Rightarrow> string \<Rightarrow> (pyval \<times> string) option" where
  "parse_value 0 s = None"
| "parse_value (Suc n) s =
     (case s of
        [] \<Rightarrow> None
      | c # cs \<Rightarrow>
          if c = CHR 0x22 then map_option (\<lambda>(t, r). (VStr t, r)) (parse_string cs)
          else if c = CHR ''{''
          then (case skip_ws cs of
                  [] \<Rightarrow> None
                | c' # r \<Rightarrow> if c' = CHR ''}'' then Some (VDict [], r)
                            else parse_members n [] (c' # r))
          else if c = CHR ''[''
          then (case skip_ws cs of
                  [] \<Rightarrow> None
                | c' # r \<Rightarrow> if c' = CHR '']'' then Some (VList [], r)
                            else parse_elements n [] (c' # r))
          else if prefix ''null'' s then Some (VNone, drop 4 s)
          else if prefix ''true'' s then Some (VBool True, drop 4 s)
          else if prefix ''false'' s then Some (VBool False, drop 5 s)
          else if prefix ''NaN'' s then Some (VFloat (NaN 0), drop 3 s)
          else if prefix ''Infinity'' s then Some (VFloat PosInf, drop 8 s)
          else if prefix ''-Infinity'' s then Some (VFloat NegInf, drop 9 s)
          else map_option (\<lambda>(i, r). (VInt i, r)) (parse_int s))"
| "parse_elements 0 acc s = None"
| "parse_elements (Suc n) acc s =
     (case parse_value n s of
        None \<Rightarrow> None
      | Some (v, r) \<Rightarrow>
          (case skip_ws r of
             [] \<Rightarrow> None
           | c # r' \<Rightarrow>
               if c = CHR '']'' then Some (VList (acc @ [v]), r')
               else if c = CHR '','' then parse_elements n (acc @ [v]) (skip_ws r')
               else None))"
| "parse_members 0 acc s = None"
| "parse_members (Suc n) acc s =
     (case s of
        [] \<Rightarrow> None
      | q # s1 \<Rightarrow>
          if q \<noteq> CHR 0x22 then None
          else
            (case parse_string s1 of
               None \<Rightarrow> None
             | Some (k, r) \<Rightarrow>
                 (case skip_ws r of
                    [] \<Rightarrow> None
                  | c # r1 \<Rightarrow>
                      if c \<noteq> CHR '':'' then None
                      else
                        (case parse_value n (skip_ws r1) of
                           None \<Rightarrow> None
                         | Some (v, r2) \<Rightarrow>
                             (case skip_ws r2 of
                                [] \<Rightarrow> None
                              | c2 # r3 \<Rightarrow>
                                  if c2 = CHR ''}'' then Some (VDict (dict_set acc k v), r3)
                                  else if c2 = CHR '',''
                                  then parse_members n (dict_set acc k v) (skip_ws r3)
                                  else None)))))"

definition json_loads :: "string \<Rightarrow> string + pyval" where
  "json_loads s =
     (case parse_value (2 * length s + 2) (skip_ws s) of
        None \<Rightarrow> Inl ''JSONDecodeError''
      | Some (v, r) \<Rightarrow> if skip_ws r = [] then Inr v else Inl ''JSONDecodeError'')"

section \<open>Notions used in the statements\<close>

text \<open>
  The argument names of a call that the schema does not know, in the order of the
  call; the declared type of the first argument of the call whose declared type
  is none of the six of \<open>type_map\<close>; and: every property flagged required is among
  the arguments.
\<close>

definition invalid_keys :: "(string \<times> property) list \<Rightarrow> pydict \<Rightarrow> string list" where
  "invalid_keys valid_params args = filter (\<lambda>k. map_of valid_params k = None) (map fst args)"

fun first_unsupported :: "(string \<times> property) list \<Rightarrow> pydict \<Rightarrow> string option" where
  "first_unsupported valid_params [] = None"
| "first_unsupported valid_params ((k, v) # rest) =
     (case map_of valid_params k of
        None \<Rightarrow> first_unsupported valid_params rest
      | Some d \<Rightarrow> if type_map (ptype d) = None then Some (ptype d)
                  else first_unsupported valid_params rest)"

definition required_present :: "tool_definition \<Rightarrow> function_call \<Rightarrow> bool" where
  "required_present td fc =
     list_all (\<lambda>(k, d). required d = Some True \<longrightarrow> map_of (arguments fc) k \<noteq> None)
       (properties td)"

text \<open>The text that extraction works on: \<^verbatim>\<open>''.join(lst)\<close>, when \<^verbatim>\<open>lst\<close> is no dict.\<close>

fun text_of :: "raw_output \<Rightarrow> string option" where
  "text_of (Structured d) = None"
| "text_of (Text s) = Some s"
| "text_of (Fragments fs) = Some (concat fs)"

section \<open>Schema validation\<close>

lemma type_map_integer: "type_map ''integer'' = Some T_int"
  by (simp add: type_map_def)

lemma type_map_number: "type_map ''number'' = Some T_float"
  by (simp add: type_map_def)

lemma check_params_append:
  "check_params vp (xs @ zs) ip tm =
     (case check_params vp xs ip tm of
        Inl r \<Rightarrow> Inl r
      | Inr (ip', tm') \<Rightarrow> check_params vp zs ip' tm')"
  by (induction xs arbitrary: ip tm) (auto split: option.splits simp: Let_def)

lemma evaluate_cong:
  assumes "name fc = name fc'"
    and "\<And>q. (map_of (arguments fc) q = None) = (map_of (arguments fc') q = None)"
    and "check_params (properties td) (arguments fc) [] []
           = check_params (properties td) (arguments fc') [] []"
  shows "evaluate_function_call td fc = evaluate_function_call td fc'"
  unfolding evaluate_function_call_def Let_def using assms by (simp cong: if_cong)

lemma check_params_unsupported:
  "first_unsupported vp args = Some t \<Longrightarrow> check_params vp args ip tm = Inl (Unsupported t)"
  by (induction args arbitrary: ip tm) (auto split: option.splits if_splits simp: Let_def)

lemma check_params_supported:
  "first_unsupported vp args = None \<Longrightarrow>
     \<exists>tm'. check_params vp args ip tm = Inr (ip @ invalid_keys vp args, tm')"
proof (induction args arbitrary: ip tm)
  case Nil
  then show ?case by (simp add: invalid_keys_def)
next
  case (Cons e args)
  obtain k v where e: "e = (k, v)" by (cases e)
  show ?case
  proof (cases "map_of vp k")
    case None
    with Cons.prems e have "first_unsupported vp args = None" by simp
    from Cons.IH [OF this, of "ip @ [k]" tm] show ?thesis
      using None e by (simp add: invalid_keys_def)
  next
    case (Some d)
    with Cons.prems e have sup: "type_map (ptype d) \<noteq> None"
      and rest: "first_unsupported vp args = None"
      by (auto split: if_splits)
    from sup obtain t where t: "type_map (ptype d) = Some t" by auto
    show ?thesis
    proof (cases "isinstance v t")
      case True
      from Cons.IH [OF rest, of ip tm] show ?thesis
        using Some e t True by (simp add: invalid_keys_def)
    next
      case False
      from Cons.IH [OF rest, of ip "tm @ [(k, ptype d, type_name v)]"] show ?thesis
        using Some e t False by (simp add: invalid_keys_def)
    qed
  qed
qed

lemma no_missing:
  "required_present td fc \<Longrightarrow>
     filter (\<lambda>param. map_of (arguments fc) param = None)
       (map fst (filter (\<lambda>(key, v). required v = Some True) (properties td))) = []"
  by (auto simp: required_present_def list_all_iff filter_empty_conv)

text \<open>
  C5, as the code has it. The name matches, every required argument is present and
  the call has an argument the schema does not know. Then the call fails. The loop
  over the arguments returns at once at an argument whose declared type is none of
  the six, so: when every argument the schema knows has one of the six declared
  types, the reason lists every unknown name, in the order of the call, and no
  type mismatch is reported; when some argument the schema knows has another
  declared type, the reason is "Unsupported parameter type" with the first such
  type, although an unknown argument exists.
\<close>

theorem unknown_argument_verdict:
  assumes "tool_name td = name fc"
    and "required_present td fc"
    and "invalid_keys (properties td) (arguments fc) \<noteq> []"
  shows "evaluate_function_call td fc =
           (False, case first_unsupported (properties td) (arguments fc) of
                     None \<Rightarrow> InvalidParams (invalid_keys (properties td) (arguments fc))
                   | Some t \<Rightarrow> Unsupported t)"
proof (cases "first_unsupported (properties td) (arguments fc)")
  case None
  from check_params_supported [OF None, of "[]" "[]"] obtain tm' where
    "check_params (properties td) (arguments fc) [] []
       = Inr (invalid_keys (properties td) (arguments fc), tm')" by auto
  then show ?thesis
    using assms(1,3) None no_missing [OF assms(2)]
    by (simp add: evaluate_function_call_def)
next
  case (Some t)
  from check_params_unsupported [OF Some, of "[]" "[]"] show ?thesis
    using assms(1) Some no_missing [OF assms(2)]
    by (simp add: evaluate_function_call_def)
qed

text \<open>
  C5 as stated fails: the schema knows \<open>a\<close> with the declared type \<open>date\<close>, the
  call passes \<open>a\<close> and the unknown \<open>zz\<close>, and the reason is the unsupported type,
  not the list of unknown names.
\<close>

theorem unknown_argument_counterexample:
  "evaluate_function_call
     \<lparr>tool_name = ''f'', properties = [(''a'', \<lparr>ptype = ''date'', required = Some True\<rparr>)]\<rparr>
     \<lparr>name = ''f'', arguments = [(''a'', VInt 1), (''zz'', VInt 2)]\<rparr>
   = (False, Unsupported ''date'')"
  by (simp add: evaluate_function_call_def type_map_def)

text \<open>
  An instance of \<open>unknown_argument_verdict\<close>: the unknown \<open>zz\<close> is reported, the
  wrong type of \<open>a\<close> is not.
\<close>

theorem unknown_argument_verdict_witness:
  "tool_name \<lparr>tool_name = ''f'', properties = [(''a'', \<lparr>ptype = ''string'', required = Some True\<rparr>)]\<rparr>
     = name \<lparr>name = ''f'', arguments = [(''zz'', VInt 2), (''a'', VInt 1)]\<rparr>
   \<and> required_present
       \<lparr>tool_name = ''f'', properties = [(''a'', \<lparr>ptype = ''string'', required = Some True\<rparr>)]\<rparr>
       \<lparr>name = ''f'', arguments = [(''zz'', VInt 2), (''a'', VInt 1)]\<rparr>
   \<and> invalid_keys [(''a'', \<lparr>ptype = ''string'', required = Some True\<rparr>)]
        [(''zz'', VInt 2), (''a'', VInt 1)] = [''zz'']
   \<and> evaluate_function_call
       \<lparr>tool_name = ''f'', properties = [(''a'', \<lparr>ptype = ''string'', required = Some True\<rparr>)]\<rparr>
       \<lparr>name = ''f'', arguments = [(''zz'', VInt 2), (''a'', VInt 1)]\<rparr>
     = (False, InvalidParams [''zz''])"
proof -
  let ?td = "\<lparr>tool_name = ''f'', properties = [(''a'', \<lparr>ptype = ''string'', required = Some True\<rparr>)]\<rparr>"
  let ?fc = "\<lparr>name = ''f'', arguments = [(''zz'', VInt 2), (''a'', VInt 1)]\<rparr>"
  have h1: "tool_name ?td = name ?fc" by simp
  have h2: "required_present ?td ?fc" by (simp add: required_present_def)
  have k: "invalid_keys (properties ?td) (arguments ?fc) = [''zz'']"
    by (simp add: invalid_keys_def)
  then have h3: "invalid_keys (properties ?td) (arguments ?fc) \<noteq> []" by simp
  have u: "first_unsupported (properties ?td) (arguments ?fc) = None"
    by (simp add: type_map_def)
  from unknown_argument_verdict [OF h1 h2 h3]
  have "evaluate_function_call ?td ?fc = (False, InvalidParams [''zz''])"
    unfolding u k by simp
  with h1 h2 k show ?thesis by simp
qed

text \<open>
  C6, as the code has it: \<open>type_map\<close> sends \<open>number\<close> to \<^verbatim>\<open>float\<close>, so a
  parameter declared \<open>number\<close> accepts the float values only. A float adds no entry
  to the type mismatches; every other value, a whole number too, adds the entry of
  the parameter, \<open>number\<close> and the name of the value's type.
\<close>

theorem number_accepts_float_only:
  assumes "map_of valid_params p = Some d" and "ptype d = ''number''"
  shows "check_params valid_params ((p, v) # rest) ip tm =
           check_params valid_params rest ip
             (case v of VFloat f \<Rightarrow> tm | _ \<Rightarrow> tm @ [(p, ''number'', type_name v)])"
  using assms by (cases v) (simp_all add: type_map_number)

text \<open>
  C6 as stated fails: the whole number 3 for a parameter declared \<open>number\<close> is a
  type mismatch.
\<close>

theorem number_counterexample:
  "evaluate_function_call
     \<lparr>tool_name = ''f'', properties = [(''x'', \<lparr>ptype = ''number'', required = Some True\<rparr>)]\<rparr>
     \<lparr>name = ''f'', arguments = [(''x'', VInt 3)]\<rparr>
   = (False, TypeMismatches [(''x'', ''number'', ''int'')])"
  by (simp add: evaluate_function_call_def type_map_def)

text \<open>An instance of \<open>number_accepts_float_only\<close>: 1.5 passes, 3 does not.\<close>

theorem number_accepts_float_only_witness:
  "map_of [(''x'', \<lparr>ptype = ''number'', required = Some True\<rparr>)] ''x''
     = Some \<lparr>ptype = ''number'', required = Some True\<rparr>
   \<and> ptype \<lparr>ptype = ''number'', required = Some True\<rparr> = ''number''
   \<and> check_params [(''x'', \<lparr>ptype = ''number'', required = Some True\<rparr>)]
        [(''x'', VFloat (Fin (3 / 2))), (''x'', VInt 3)] [] []
      = Inr ([], [(''x'', ''number'', ''int'')])"
proof -
  have h1: "map_of [(''x'', \<lparr>ptype = ''number'', required = Some True\<rparr>)] ''x''
     = Some \<lparr>ptype = ''number'', required = Some True\<rparr>" by simp
  have h2: "ptype \<lparr>ptype = ''number'', required = Some True\<rparr> = ''number''" by simp
  note step = number_accepts_float_only [OF h1 h2]
  have "check_params [(''x'', \<lparr>ptype = ''number'', required = Some True\<rparr>)]
        [(''x'', VFloat (Fin (3 / 2))), (''x'', VInt 3)] [] []
      = Inr ([], [(''x'', ''number'', ''int'')])"
    unfolding step by simp
  with h1 h2 show ?thesis by blast
qed

text \<open>
  C10: \<^verbatim>\<open>isinstance(True, int)\<close> holds, so a boolean for a parameter declared
  \<open>integer\<close> adds no entry to the type mismatches, and the verdict on a call with
  a boolean there is the verdict on the same call with a whole number there: valid
  when that one is valid.
\<close>

theorem bool_passes_integer:
  assumes "map_of (properties td) p = Some d" and "ptype d = ''integer''"
  shows "check_params (properties td) ((p, VBool b) # rest) ip tm
           = check_params (properties td) rest ip tm
         \<and> evaluate_function_call td \<lparr>name = n, arguments = xs @ (p, VBool b) # ys\<rparr>
           = evaluate_function_call td \<lparr>name = n, arguments = xs @ (p, VInt i) # ys\<rparr>"
proof -
  have step: "check_params (properties td) ((p, VBool b) # ys) ip' tm'
      = check_params (properties td) ((p, VInt i) # ys) ip' tm'" for ip' tm'
    using assms by (simp add: type_map_integer)
  have loop: "check_params (properties td) (xs @ (p, VBool b) # ys) [] []
      = check_params (properties td) (xs @ (p, VInt i) # ys) [] []"
    unfolding check_params_append using step by (simp split: sum.splits prod.splits)
  have first: "check_params (properties td) ((p, VBool b) # rest) ip tm
           = check_params (properties td) rest ip tm"
    using assms by (simp add: type_map_integer)
  have second: "evaluate_function_call td \<lparr>name = n, arguments = xs @ (p, VBool b) # ys\<rparr>
           = evaluate_function_call td \<lparr>name = n, arguments = xs @ (p, VInt i) # ys\<rparr>"
  proof (rule evaluate_cong)
    show "name \<lparr>name = n, arguments = xs @ (p, VBool b) # ys\<rparr>
            = name \<lparr>name = n, arguments = xs @ (p, VInt i) # ys\<rparr>" by simp
    show "(map_of (arguments \<lparr>name = n, arguments = xs @ (p, VBool b) # ys\<rparr>) q = None)
            = (map_of (arguments \<lparr>name = n, arguments = xs @ (p, VInt i) # ys\<rparr>) q = None)" for q
      by (simp add: map_of_eq_None_iff)
    show "check_params (properties td) (arguments \<lparr>name = n, arguments = xs @ (p, VBool b) # ys\<rparr>) [] []
            = check_params (properties td) (arguments \<lparr>name = n, arguments = xs @ (p, VInt i) # ys\<rparr>) [] []"
      using loop by simp
  qed
  show ?thesis using first second by (rule conjI)
qed

text \<open>
  An instance of \<open>bool_passes_integer\<close>: \<open>limit\<close> is declared \<open>integer\<close> and
  required, and the call that passes \<^verbatim>\<open>True\<close> for it is valid.
\<close>

theorem bool_passes_integer_witness:
  "map_of [(''limit'', \<lparr>ptype = ''integer'', required = Some True\<rparr>)] ''limit''
     = Some \<lparr>ptype = ''integer'', required = Some True\<rparr>
   \<and> ptype \<lparr>ptype = ''integer'', required = Some True\<rparr> = ''integer''
   \<and> evaluate_function_call
       \<lparr>tool_name = ''f'', properties = [(''limit'', \<lparr>ptype = ''integer'', required = Some True\<rparr>)]\<rparr>
       \<lparr>name = ''f'', arguments = [(''limit'', VBool True)]\<rparr>
     = (True, Literal ''Function call is valid.'')"
proof -
  let ?d = "\<lparr>ptype = ''integer'', required = Some True\<rparr>"
  let ?td = "\<lparr>tool_name = ''f'', properties = [(''limit'', ?d)]\<rparr>"
  have h1: "map_of (properties ?td) ''limit'' = Some ?d" by simp
  have h2: "ptype ?d = ''integer''" by simp
  from bool_passes_integer [OF h1 h2, of True "[]" "[]" "[]" "''f''" "[]" "[]" 1]
  have same: "evaluate_function_call ?td \<lparr>name = ''f'', arguments = [(''limit'', VBool True)]\<rparr>
      = evaluate_function_call ?td \<lparr>name = ''f'', arguments = [(''limit'', VInt 1)]\<rparr>"
    by simp
  have "evaluate_function_call ?td \<lparr>name = ''f'', arguments = [(''limit'', VInt 1)]\<rparr>
      = (True, Literal ''Function call is valid.'')"
    by (simp add: evaluate_function_call_def type_map_def)
  with same h1 h2 show ?thesis by simp
qed

section \<open>Comparison of calls\<close>

lemma mismatched_total:
  "fst ` set rest \<subseteq> fst ` set g \<Longrightarrow> \<exists>ms. mismatched p g rest acc = Inr ms"
proof (induction rest arbitrary: acc)
  case Nil
  then show ?case by simp
next
  case (Cons e rest)
  obtain k v where e: "e = (k, v)" by (cases e)
  from Cons.prems e have "k \<in> fst ` set g" by simp
  then obtain w where w: "map_of g k = Some w"
    by (metis map_of_eq_None_iff not_Some_eq)
  from Cons.prems have "fst ` set rest \<subseteq> fst ` set g" by simp
  from Cons.IH [OF this] show ?case using e w by simp
qed

text \<open>
  The comparison returns a verdict whenever the keys of the predicted call are
  among the keys of the reference call, and so whenever the key sets are
  compared.
\<close>

lemma compare_total_guarded:
  "keys (arguments p) \<subseteq> keys (arguments g) \<Longrightarrow> \<exists>v. compare_function_calls p g ca cv = Inr v"
  using mismatched_total [of "arguments p" "arguments g" "arguments p" "[]"]
  by (auto simp: compare_function_calls_def keys_def Let_def split: sum.splits)

lemma compare_total_checked:
  "\<exists>v. compare_function_calls p g True cv = Inr v"
proof (cases "keys (arguments p) = keys (arguments g)")
  case True
  then show ?thesis using compare_total_guarded [of p g True cv] by simp
next
  case False
  then show ?thesis by (auto simp: compare_function_calls_def Let_def)
qed

text \<open>
  C2: with \<^verbatim>\<open>compare_arguments\<close> off and \<^verbatim>\<open>compare_value\<close> on, a key of the
  predicted call that the reference call lacks makes \<^verbatim>\<open>gt_arguments[key]\<close>
  raise KeyError: the comparison returns no verdict there.
\<close>

theorem compare_raises_KeyError:
  "compare_function_calls \<lparr>name = ''f'', arguments = [(''x'', VInt 1)]\<rparr>
      \<lparr>name = ''f'', arguments = []\<rparr> False True = Inl (KeyError ''x'')"
  by (simp add: compare_function_calls_def keys_def)

text \<open>
  An object is identical or equal to itself: equal, unless it is a NaN. This is
  what makes \<open>same_nan\<close> enough for the identity test of the containers.
\<close>

lemma same_nan_self: "is_nan v \<Longrightarrow> same_nan v v"
  by (induction v rule: is_nan.induct) simp_all

lemma float_self: "is_nan (VFloat f) \<or> py_eq (VFloat f) (VFloat f)"
  by (cases f) simp_all

lemma py_eq_self:
  "dict_ok v \<longrightarrow> is_nan v \<or> py_eq v v"
  "dict_ok_list xs \<longrightarrow> py_eq_list xs xs"
  "dict_ok_items d \<longrightarrow>
      (\<forall>b. (\<forall>e \<in> set d. map_of b (fst e) = Some (snd e)) \<longrightarrow> py_eq_items d b)"
proof (induction v and xs and d rule: dict_ok_dict_ok_list_dict_ok_items.induct)
  case (2 d)
  show ?case
  proof (intro impI)
    assume ok: "dict_ok (VDict d)"
    then have "\<forall>e \<in> set d. map_of d (fst e) = Some (snd e)" by simp
    with 2 ok show "is_nan (VDict d) \<or> py_eq (VDict d) (VDict d)" by simp
  qed
next
  case "3_4"
  show ?case by (rule impI) (rule float_self)
next
  case (5 x xs)
  then show ?case using same_nan_self [of x] by auto
next
  case (7 k v d)
  then show ?case using same_nan_self [of v] by auto
qed simp_all

lemma identical_equal: "dict_ok v \<Longrightarrow> \<not> is_nan v \<Longrightarrow> py_eq v v"
  using py_eq_self(1) by blast

lemma py_eq_nan: "is_nan v \<Longrightarrow> \<not> py_eq v w"
  by (induction v rule: is_nan.induct) (auto split: option.splits)

lemma dict_ok_items_mem: "dict_ok_items d \<Longrightarrow> e \<in> set d \<Longrightarrow> dict_ok (snd e)"
  by (induction d) auto

lemma mismatched_same:
  "\<forall>e \<in> set rest. map_of g (fst e) = Some (snd e) \<and> py_eq (snd e) (snd e)
     \<Longrightarrow> mismatched p g rest acc = Inr acc"
  by (induction rest arbitrary: acc) (auto simp: py_ne_def)

lemma mismatched_keeps:
  "mismatched p g rest acc = Inr ms \<Longrightarrow> acc \<noteq> [] \<Longrightarrow> ms \<noteq> []"
proof (induction rest arbitrary: acc)
  case Nil
  then show ?case by simp
next
  case (Cons x rest)
  obtain k v where x: "x = (k, v)" by (cases x)
  from Cons.prems(1) x obtain w where w: "map_of g k = Some w"
    by (auto split: option.splits)
  show ?case
  proof (cases "py_ne v w")
    case True
    with Cons.prems(1) x w have "mismatched p g rest (acc @ [(k, v, w)]) = Inr ms" by simp
    then show ?thesis by (rule Cons.IH) simp
  next
    case False
    with Cons.prems(1) x w have "mismatched p g rest acc = Inr ms" by simp
    then show ?thesis using Cons.prems(2) by (rule Cons.IH)
  qed
qed

lemma mismatched_nan:
  "\<forall>e \<in> set rest. map_of g (fst e) = Some (snd e) \<Longrightarrow> e \<in> set rest \<Longrightarrow> is_nan (snd e)
     \<Longrightarrow> \<exists>ms. mismatched p g rest acc = Inr ms \<and> ms \<noteq> []"
proof (induction rest arbitrary: acc)
  case Nil
  then show ?case by simp
next
  case (Cons x rest)
  obtain k v where x: "x = (k, v)" by (cases x)
  from Cons.prems(1) x have look: "map_of g k = Some v"
    and rest: "\<forall>e \<in> set rest. map_of g (fst e) = Some (snd e)" by auto
  have total: "\<exists>ms. mismatched p g rest acc' = Inr ms" for acc'
    using rest by (induction rest arbitrary: acc') auto
  show ?case
  proof (cases "py_ne v v")
    case True
    from total obtain ms where ms: "mismatched p g rest (acc @ [(k, v, v)]) = Inr ms" by blast
    then have "ms \<noteq> []" by (rule mismatched_keeps) simp
    with ms show ?thesis using x look True by simp
  next
    case False
    then have "\<not> is_nan v" using py_eq_nan [of v v] by (auto simp: py_ne_def)
    with Cons.prems(2,3) x have "e \<in> set rest" by auto
    from Cons.IH [OF rest this Cons.prems(3)] show ?thesis using x look False by simp
  qed
qed

text \<open>
  C8, as the code has it: for every call none of whose argument values is a NaN
  (the arguments being a Python dict, with distinct keys at every depth),
  comparing the call with itself, keys and values, gives
  \<^verbatim>\<open>(True, "Function calls match.")\<close>. A NaN inside a list or a dict among the
  argument values does no harm: there the comparison finds the one object on both
  sides.
\<close>

theorem compare_reflexive:
  assumes "dict_ok (VDict (arguments c))"
    and "list_all (\<lambda>(k, v). \<not> is_nan v) (arguments c)"
  shows "compare_function_calls c c True True = Inr (True, Literal ''Function calls match.'')"
proof -
  from assms(1) have dist: "distinct (map fst (arguments c))" by simp
  have "\<forall>e \<in> set (arguments c).
          map_of (arguments c) (fst e) = Some (snd e) \<and> py_eq (snd e) (snd e)"
  proof
    fix e assume e: "e \<in> set (arguments c)"
    from dist e have "map_of (arguments c) (fst e) = Some (snd e)" by simp
    moreover have "py_eq (snd e) (snd e)"
    proof (rule identical_equal)
      from assms(1) have "dict_ok_items (arguments c)" by simp
      then show "dict_ok (snd e)" using e by (rule dict_ok_items_mem)
      from assms(2) e show "\<not> is_nan (snd e)" by (auto simp: list_all_iff)
    qed
    ultimately show "map_of (arguments c) (fst e) = Some (snd e) \<and> py_eq (snd e) (snd e)" ..
  qed
  then have "mismatched (arguments c) (arguments c) (arguments c) [] = Inr []"
    by (rule mismatched_same)
  then show ?thesis by (simp add: compare_function_calls_def)
qed

text \<open>
  C8 as stated fails: \<^verbatim>\<open>nan != nan\<close> holds, also of one object, so a call with
  the argument value NaN (which \<^verbatim>\<open>json.loads\<close> reads from \<^verbatim>\<open>NaN\<close>) does not
  match itself.
\<close>

theorem compare_reflexive_counterexample:
  "compare_function_calls \<lparr>name = ''f'', arguments = [(''x'', VFloat (NaN 0))]\<rparr>
      \<lparr>name = ''f'', arguments = [(''x'', VFloat (NaN 0))]\<rparr> True True
   = Inr (False, ValuesMismatch [(''x'', VFloat (NaN 0), VFloat (NaN 0))])"
  by (simp add: compare_function_calls_def keys_def py_ne_def)

text \<open>
  An instance of \<open>compare_reflexive\<close>, with a NaN inside a list and inside a
  dict among the argument values.
\<close>

theorem compare_reflexive_witness:
  "dict_ok (VDict [(''x'', VInt 1), (''y'', VList [VFloat (NaN 0), VDict [(''k'', VFloat (NaN 0))]])])
   \<and> list_all (\<lambda>(k, v). \<not> is_nan v)
        [(''x'', VInt 1), (''y'', VList [VFloat (NaN 0), VDict [(''k'', VFloat (NaN 0))]])]
   \<and> compare_function_calls
       \<lparr>name = ''f'', arguments = [(''x'', VInt 1), (''y'', VList [VFloat (NaN 0), VDict [(''k'', VFloat (NaN 0))]])]\<rparr>
       \<lparr>name = ''f'', arguments = [(''x'', VInt 1), (''y'', VList [VFloat (NaN 0), VDict [(''k'', VFloat (NaN 0))]])]\<rparr>
       True True
     = Inr (True, Literal ''Function calls match.'')"
proof -
  let ?args = "[(''x'', VInt 1), (''y'', VList [VFloat (NaN 0), VDict [(''k'', VFloat (NaN 0))]])]"
  let ?c = "\<lparr>name = ''f'', arguments = ?args\<rparr>"
  have h1: "dict_ok (VDict (arguments ?c))" by simp
  have h2: "list_all (\<lambda>(k, v). \<not> is_nan v) (arguments ?c)" by simp
  from compare_reflexive [OF h1 h2] h1 h2 show ?thesis by simp
qed

text \<open>
  The hypothesis of \<open>compare_reflexive\<close> cannot be dropped for any call: with a
  NaN among the argument values, the call does not match itself.
\<close>

lemma compare_self_nan:
  assumes "dict_ok (VDict (arguments c))"
    and "e \<in> set (arguments c)" and "is_nan (snd e)"
  shows "\<exists>ms. compare_function_calls c c True True = Inr (False, ValuesMismatch ms)"
proof -
  from assms(1) have "\<forall>e \<in> set (arguments c). map_of (arguments c) (fst e) = Some (snd e)"
    by simp
  from mismatched_nan [OF this assms(2,3), of "arguments c" "[]"]
  show ?thesis by (auto simp: compare_function_calls_def)
qed

section \<open>Properties of extraction\<close>

lemma extract_text:
  "text_of lst = Some s \<Longrightarrow> extract_function_call_json loads lst rm v = extract_str loads s rm v"
  by (cases lst) auto

lemma extract_qwen_text:
  "text_of lst = Some s \<Longrightarrow>
     extract_function_call_json_from_qwen loads lst rm v = extract_qwen_str loads s rm v"
  by (cases lst) auto

lemma slice_from_nat: "slice_from s (int i + int k) = drop (i + k) s"
  by (simp add: slice_from_def slice_index_def min_def flip: of_nat_add)

lemma slice_upto_nat: "slice_upto s (int i) = take i s"
  by (simp add: slice_upto_def slice_index_def min_def)

subsection \<open>The verbose flag\<close>

lemma verbose_str: "snd (extract_str loads s rm True) = snd (extract_str loads s rm False)"
  by (simp add: extract_str_def Let_def split: sum.splits)

lemma verbose_qwen_str:
  "snd (extract_qwen_str loads s rm True) = snd (extract_qwen_str loads s rm False)"
  by (simp add: extract_qwen_str_def Let_def split: sum.splits attempt.splits)

lemma verbose_same_value:
  "snd (extract_function_call_json loads lst rm True)
     = snd (extract_function_call_json loads lst rm False)"
  "snd (extract_function_call_json_from_qwen loads lst rm True)
     = snd (extract_function_call_json_from_qwen loads lst rm False)"
  by (cases lst; simp add: verbose_str verbose_qwen_str)+

text \<open>What a run prints with \<^verbatim>\<open>verbose\<close> off, it prints with \<^verbatim>\<open>verbose\<close> on.\<close>

lemma quiet_lines_str:
  "set (fst (extract_str loads s rm False)) \<subseteq> set (fst (extract_str loads s rm True))"
  by (auto simp: extract_str_def Let_def split: sum.splits)

lemma quiet_lines_qwen_str: "fst (extract_qwen_str loads s rm False) = []"
  by (simp add: extract_qwen_str_def failed_line_def Let_def split: sum.splits attempt.splits)

lemma quiet_lines:
  "set (fst (extract_function_call_json loads lst rm False))
     \<subseteq> set (fst (extract_function_call_json loads lst rm True))"
  "set (fst (extract_function_call_json_from_qwen loads lst rm False))
     \<subseteq> set (fst (extract_function_call_json_from_qwen loads lst rm True))"
  using quiet_lines_str by (cases lst; simp add: quiet_lines_qwen_str)+

lemma returned_both:
  assumes "list_all encodable (fst on)" and "set (fst off) \<subseteq> set (fst on)"
    and "snd on = snd off"
  shows "returned encodable on = Inr (snd off) \<and> returned encodable off = Inr (snd off)"
proof -
  from assms(1,2) have "list_all encodable (fst off)" by (auto simp: list_all_iff)
  with assms(1,3) show ?thesis by (simp add: returned_def)
qed

text \<open>
  C9, as the code has it: for every input and every setting of
  \<^verbatim>\<open>return_message\<close>, when the output stream can encode every line that the run
  with \<^verbatim>\<open>verbose\<close> on prints, each of the two functions returns with
  \<^verbatim>\<open>verbose\<close> on, returns with \<^verbatim>\<open>verbose\<close> off, and returns the same value.
\<close>

theorem verbose_keeps_returned_value:
  "(list_all encodable (fst (extract_function_call_json loads lst rm True)) \<longrightarrow>
      returned encodable (extract_function_call_json loads lst rm True)
        = Inr (snd (extract_function_call_json loads lst rm False))
      \<and> returned encodable (extract_function_call_json loads lst rm False)
        = Inr (snd (extract_function_call_json loads lst rm False)))
   \<and> (list_all encodable (fst (extract_function_call_json_from_qwen loads lst rm True)) \<longrightarrow>
      returned encodable (extract_function_call_json_from_qwen loads lst rm True)
        = Inr (snd (extract_function_call_json_from_qwen loads lst rm False))
      \<and> returned encodable (extract_function_call_json_from_qwen loads lst rm False)
        = Inr (snd (extract_function_call_json_from_qwen loads lst rm False)))"
  using returned_both [OF _ quiet_lines(1) verbose_same_value(1)]
    returned_both [OF _ quiet_lines(2) verbose_same_value(2)]
  by blast

text \<open>
  C9 as stated fails: the text below is a JSON call with the character U+00E9 in
  an argument value. On a stream whose encoding is ASCII, each function returns
  the call with \<^verbatim>\<open>verbose\<close> off, and with \<^verbatim>\<open>verbose\<close> on raises
  \<^verbatim>\<open>UnicodeEncodeError\<close> at its first \<^verbatim>\<open>print\<close>, which writes the text.
\<close>

theorem verbose_counterexample:
  "returned ascii_stream (extract_function_call_json json_loads
       (Text (''{\"name\": \"f\", \"arguments\": {\"q\": \"'' @ [CHR 0xE9] @ ''\"}}'')) True False)
     = Inr (RetMsg (VDict [(''name'', VStr ''f''),
                           (''arguments'', VDict [(''q'', VStr [CHR 0xE9])])]) [])
   \<and> returned ascii_stream (extract_function_call_json json_loads
       (Text (''{\"name\": \"f\", \"arguments\": {\"q\": \"'' @ [CHR 0xE9] @ ''\"}}'')) True True)
     = Inl UnicodeEncodeError
   \<and> returned ascii_stream (extract_function_call_json_from_qwen json_loads
       (Text (''{\"name\": \"f\", \"arguments\": {\"q\": \"'' @ [CHR 0xE9] @ ''\"}}'')) True False)
     = Inr (RetMsg (VDict [(''name'', VStr ''f''),
                           (''arguments'', VDict [(''q'', VStr [CHR 0xE9])])]) [])
   \<and> returned ascii_stream (extract_function_call_json_from_qwen json_loads
       (Text (''{\"name\": \"f\", \"arguments\": {\"q\": \"'' @ [CHR 0xE9] @ ''\"}}'')) True True)
     = Inl UnicodeEncodeError"
  by code_simp

text \<open>
  An instance of \<open>verbose_keeps_returned_value\<close>: a text of ASCII characters
  that is no call, on a stream whose encoding is ASCII.
\<close>

theorem verbose_keeps_returned_value_witness:
  "list_all ascii_stream (fst (extract_function_call_json json_loads (Text ''no call'') True True))
   \<and> list_all ascii_stream
        (fst (extract_function_call_json_from_qwen json_loads (Text ''no call'') True True))
   \<and> returned ascii_stream (extract_function_call_json json_loads (Text ''no call'') True True)
       = Inr (RetMsg VNone ''no call'')
   \<and> returned ascii_stream (extract_function_call_json json_loads (Text ''no call'') True False)
       = Inr (RetMsg VNone ''no call'')
   \<and> returned ascii_stream
        (extract_function_call_json_from_qwen json_loads (Text ''no call'') True True)
       = Inr (RetMsg VNone ''no call'')
   \<and> returned ascii_stream
        (extract_function_call_json_from_qwen json_loads (Text ''no call'') True False)
       = Inr (RetMsg VNone ''no call'')"
proof -
  have h1: "list_all ascii_stream
      (fst (extract_function_call_json json_loads (Text ''no call'') True True))" by code_simp
  have h2: "list_all ascii_stream
      (fst (extract_function_call_json_from_qwen json_loads (Text ''no call'') True True))"
    by code_simp
  have v1: "snd (extract_function_call_json json_loads (Text ''no call'') True False)
      = RetMsg VNone ''no call''" by code_simp
  have v2: "snd (extract_function_call_json_from_qwen json_loads (Text ''no call'') True False)
      = RetMsg VNone ''no call''" by code_simp
  note inst = verbose_keeps_returned_value [of ascii_stream json_loads "Text ''no call''" True]
  from inst h1 h2 show ?thesis unfolding v1 v2 by blast
qed

subsection \<open>Whole-string JSON\<close>



subsection \<open>Text with none of the recognised shapes\<close>

text \<open>
  The second function guards each marker search against \<open>-1\<close>: on a text that is
  not JSON, has no \<^verbatim>\<open>[TOOL_CALLS]\<close>, no \<^verbatim>\<open><functioncall>\<close> and not both of
  \<^verbatim>\<open><tool_call>\<close> and \<^verbatim>\<open></tool_call>\<close>, it returns \<^verbatim>\<open>None\<close>, with the
  text as the message when a message is requested.
\<close>

lemma qwen_unmarked:
  assumes "text_of lst = Some s" and "loads (strip s) = Inl e0"
    and "str_find s ''<tool_call>'' = - 1 \<or> str_find s ''</tool_call>'' = - 1"
    and "str_find s ''[TOOL_CALLS]'' = - 1"
    and "str_find s ''<functioncall>'' = - 1"
  shows "snd (extract_function_call_json_from_qwen loads lst rm v)
           = (if rm then RetMsg VNone s else Ret VNone)"
proof -
  have "tool_call_attempt loads s rm = Passed"
    using assms(3) by (auto simp: tool_call_attempt_def Let_def)
  moreover have "bracket_attempt loads s rm = Passed"
    using assms(4) by (simp add: bracket_attempt_def Let_def)
  moreover have "functioncall_attempt loads s rm = Passed"
    using assms(5) by (simp add: functioncall_attempt_def Let_def)
  ultimately show ?thesis
    using assms(1,2) by (simp add: extract_qwen_text extract_qwen_str_def Let_def)
qed

text \<open>
  C1: the first function does not guard the searches. On a text without
  \<^verbatim>\<open>[TOOL_CALLS]\<close> the search gives \<open>-1\<close>, the slice starts at index 11 and the
  message is the text without its last character. The text below is not JSON and
  has none of the markers; the first function returns a call from it, with a
  message that is not the text, where the second returns \<^verbatim>\<open>None\<close> and the text.
\<close>

theorem unmarked_text_returns_call:
  "json_loads (strip ''Result is: {\"name\": \"f\", \"arguments\": {}}'') = Inl ''JSONDecodeError''
   \<and> str_find ''Result is: {\"name\": \"f\", \"arguments\": {}}'' ''[TOOL_CALLS]'' = - 1
   \<and> str_find ''Result is: {\"name\": \"f\", \"arguments\": {}}'' ''<tool_call>'' = - 1
   \<and> str_find ''Result is: {\"name\": \"f\", \"arguments\": {}}'' ''<functioncall>'' = - 1
   \<and> snd (extract_function_call_json json_loads
            (Text ''Result is: {\"name\": \"f\", \"arguments\": {}}'') True False)
     = RetMsg (VDict [(''name'', VStr ''f''), (''arguments'', VDict [])])
         ''Result is: {\"name\": \"f\", \"arguments\": {}''
   \<and> snd (extract_function_call_json_from_qwen json_loads
            (Text ''Result is: {\"name\": \"f\", \"arguments\": {}}'') True False)
     = RetMsg VNone ''Result is: {\"name\": \"f\", \"arguments\": {}}''"
  by code_simp

subsection \<open>A message whenever one is requested\<close>

lemma attempt_pair:
  "tool_call_attempt loads s True = Returned r \<Longrightarrow> \<exists>c m. r = RetMsg c m"
  "bracket_attempt loads s True = Returned r \<Longrightarrow> \<exists>c m. r = RetMsg c m"
  "functioncall_attempt loads s True = Returned r \<Longrightarrow> \<exists>c m. r = RetMsg c m"
  by (auto simp: tool_call_attempt_def bracket_attempt_def functioncall_attempt_def Let_def
      split: if_splits sum.splits)

text \<open>The second function returns a pair on every path when a message is requested.\<close>

lemma qwen_always_pair:
  "\<exists>c m. snd (extract_function_call_json_from_qwen loads lst True v) = RetMsg c m"
proof (cases lst)
  case (Structured d)
  then show ?thesis by simp
next
  case (Text s)
  then show ?thesis
    using attempt_pair [of loads s]
    by (auto simp: extract_qwen_str_def Let_def split: sum.splits attempt.splits)
next
  case (Fragments fs)
  then show ?thesis
    using attempt_pair [of loads "concat fs"]
    by (auto simp: extract_qwen_str_def Let_def split: sum.splits attempt.splits)
qed

text \<open>
  C4: on its \<^verbatim>\<open><functioncall>\<close> path the first function returns the call alone,
  also when a message is requested; the second function returns the pair there.
\<close>

theorem functioncall_path_drops_message:
  "snd (extract_function_call_json json_loads
          (Text ''<functioncall>{\"name\": \"f\", \"arguments\": {}}</functioncall>'') True False)
     = Ret (VDict [(''name'', VStr ''f''), (''arguments'', VDict [])])
   \<and> snd (extract_function_call_json_from_qwen json_loads
          (Text ''<functioncall>{\"name\": \"f\", \"arguments\": {}}</functioncall>'') True False)
     = RetMsg (VDict [(''name'', VStr ''f''), (''arguments'', VDict [])]) []"
  by code_simp

subsection \<open>A start marker without an end marker\<close>

lemma bracket_open_ended:
  assumes "str_find s ''[TOOL_CALLS]'' = int i"
    and "str_find s ''</s>'' = - 1" and "str_find s ''<|eom_id|>'' = - 1"
  shows "bracket_attempt loads s rm =
           (case loads (strip (drop (i + 12) s)) of
              Inl e \<Rightarrow> Raised e
            | Inr c \<Rightarrow> Returned (if rm then RetMsg c (take i s) else Ret c))"
  using assms slice_from_nat [of s i 12]
  by (simp add: bracket_attempt_def Let_def slice_upto_nat split: sum.splits)

lemma functioncall_needs_end:
  "str_find s ''</functioncall>'' = - 1 \<Longrightarrow> functioncall_attempt loads s rm = Passed"
  by (simp add: functioncall_attempt_def Let_def)

text \<open>
  C3, as the code has it, on a text that is not JSON as a whole. For the
  \<^verbatim>\<open>[TOOL_CALLS]\<close> format, in both functions: when the start marker is in the
  text and neither \<^verbatim>\<open></s>\<close> nor \<^verbatim>\<open><|eom_id|>\<close> is, the slice that is parsed
  runs from just after the start marker to the end of the text; when it parses,
  its value is returned, with the text before the marker as the message (in the
  second function provided the \<^verbatim>\<open><tool_call>\<close> attempt before it has not
  returned). For the \<^verbatim>\<open><functioncall>\<close> format in the second function: when no
  \<^verbatim>\<open></functioncall>\<close> is in the text the attempt is skipped, so that, the two
  attempts before it not having returned, the result is \<^verbatim>\<open>None\<close>, with the text
  as the message when one is requested.
\<close>

theorem open_ended_slice:
  assumes "text_of lst = Some s" and "loads (strip s) = Inl e0"
  shows "(str_find s ''[TOOL_CALLS]'' = int i \<and> str_find s ''</s>'' = - 1
            \<and> str_find s ''<|eom_id|>'' = - 1 \<and> loads (strip (drop (i + 12) s)) = Inr c
          \<longrightarrow> snd (extract_function_call_json loads lst rm v)
                = (if rm then RetMsg c (take i s) else Ret c)
              \<and> ((\<forall>r. tool_call_attempt loads s rm \<noteq> Returned r) \<longrightarrow>
                   snd (extract_function_call_json_from_qwen loads lst rm v)
                     = (if rm then RetMsg c (take i s) else Ret c)))
       \<and> (str_find s ''</functioncall>'' = - 1
            \<and> (\<forall>r. tool_call_attempt loads s rm \<noteq> Returned r)
            \<and> (\<forall>r. bracket_attempt loads s rm \<noteq> Returned r)
          \<longrightarrow> snd (extract_function_call_json_from_qwen loads lst rm v)
                = (if rm then RetMsg VNone s else Ret VNone))"
proof (intro conjI impI; (elim conjE)?)
  assume m: "str_find s ''[TOOL_CALLS]'' = int i" "str_find s ''</s>'' = - 1"
    "str_find s ''<|eom_id|>'' = - 1" and p: "loads (strip (drop (i + 12) s)) = Inr c"
  show "snd (extract_function_call_json loads lst rm v)
          = (if rm then RetMsg c (take i s) else Ret c)"
    using assms m p slice_from_nat [of s i 12]
    by (simp add: extract_text extract_str_def Let_def slice_upto_nat)
next
  assume m: "str_find s ''[TOOL_CALLS]'' = int i" "str_find s ''</s>'' = - 1"
    "str_find s ''<|eom_id|>'' = - 1" and p: "loads (strip (drop (i + 12) s)) = Inr c"
    and t: "\<forall>r. tool_call_attempt loads s rm \<noteq> Returned r"
  have "bracket_attempt loads s rm = Returned (if rm then RetMsg c (take i s) else Ret c)"
    using bracket_open_ended [OF m, of loads rm] p by simp
  with t show "snd (extract_function_call_json_from_qwen loads lst rm v)
          = (if rm then RetMsg c (take i s) else Ret c)"
    using assms
    by (cases "tool_call_attempt loads s rm")
       (simp_all add: extract_qwen_text extract_qwen_str_def Let_def)
next
  assume e: "str_find s ''</functioncall>'' = - 1"
    and t: "\<forall>r. tool_call_attempt loads s rm \<noteq> Returned r"
    and b: "\<forall>r. bracket_attempt loads s rm \<noteq> Returned r"
  from e have "functioncall_attempt loads s rm = Passed" by (rule functioncall_needs_end)
  with t b show "snd (extract_function_call_json_from_qwen loads lst rm v)
          = (if rm then RetMsg VNone s else Ret VNone)"
    using assms
    by (cases "tool_call_attempt loads s rm"; cases "bracket_attempt loads s rm")
       (simp_all add: extract_qwen_text extract_qwen_str_def Let_def)
qed

text \<open>
  C3 as stated fails for the \<^verbatim>\<open><functioncall>\<close> format: the start marker is
  there, no end marker is, the text after the start marker is a JSON call, and
  the second function returns \<^verbatim>\<open>None\<close> with the whole text as the message.
\<close>

theorem open_ended_slice_counterexample:
  "str_find ''<functioncall>{\"name\": \"f\", \"arguments\": {}}'' ''<functioncall>'' = 0
   \<and> str_find ''<functioncall>{\"name\": \"f\", \"arguments\": {}}'' ''</functioncall>'' = - 1
   \<and> json_loads (strip (drop 14 ''<functioncall>{\"name\": \"f\", \"arguments\": {}}''))
       = Inr (VDict [(''name'', VStr ''f''), (''arguments'', VDict [])])
   \<and> snd (extract_function_call_json_from_qwen json_loads
            (Text ''<functioncall>{\"name\": \"f\", \"arguments\": {}}'') True False)
       = RetMsg VNone ''<functioncall>{\"name\": \"f\", \"arguments\": {}}''"
  by code_simp

text \<open>
  Two instances of \<open>open_ended_slice\<close>: a call after \<^verbatim>\<open>[TOOL_CALLS]\<close> with no
  end marker, and \<^verbatim>\<open><functioncall>\<close> with no end marker.
\<close>

theorem open_ended_slice_witness:
  "text_of (Text ''ok [TOOL_CALLS] {\"name\": \"f\", \"arguments\": {}}'')
     = Some ''ok [TOOL_CALLS] {\"name\": \"f\", \"arguments\": {}}''
   \<and> json_loads (strip ''ok [TOOL_CALLS] {\"name\": \"f\", \"arguments\": {}}'')
       = Inl ''JSONDecodeError''
   \<and> str_find ''ok [TOOL_CALLS] {\"name\": \"f\", \"arguments\": {}}'' ''[TOOL_CALLS]'' = int 3
   \<and> str_find ''ok [TOOL_CALLS] {\"name\": \"f\", \"arguments\": {}}'' ''</s>'' = - 1
   \<and> str_find ''ok [TOOL_CALLS] {\"name\": \"f\", \"arguments\": {}}'' ''<|eom_id|>'' = - 1
   \<and> json_loads (strip (drop (3 + 12) ''ok [TOOL_CALLS] {\"name\": \"f\", \"arguments\": {}}''))
       = Inr (VDict [(''name'', VStr ''f''), (''arguments'', VDict [])])
   \<and> tool_call_attempt json_loads ''ok [TOOL_CALLS] {\"name\": \"f\", \"arguments\": {}}'' True
       = Passed
   \<and> snd (extract_function_call_json json_loads
            (Text ''ok [TOOL_CALLS] {\"name\": \"f\", \"arguments\": {}}'') True False)
       = RetMsg (VDict [(''name'', VStr ''f''), (''arguments'', VDict [])]) ''ok ''
   \<and> snd (extract_function_call_json_from_qwen json_loads
            (Text ''ok [TOOL_CALLS] {\"name\": \"f\", \"arguments\": {}}'') True False)
       = RetMsg (VDict [(''name'', VStr ''f''), (''arguments'', VDict [])]) ''ok ''
   \<and> text_of (Text ''<functioncall>{}'') = Some ''<functioncall>{}''
   \<and> json_loads (strip ''<functioncall>{}'') = Inl ''JSONDecodeError''
   \<and> str_find ''<functioncall>{}'' ''</functioncall>'' = - 1
   \<and> tool_call_attempt json_loads ''<functioncall>{}'' True = Passed
   \<and> bracket_attempt json_loads ''<functioncall>{}'' True = Passed
   \<and> snd (extract_function_call_json_from_qwen json_loads (Text ''<functioncall>{}'') True False)
       = RetMsg VNone ''<functioncall>{}''"
proof -
  let ?s = "''ok [TOOL_CALLS] {\"name\": \"f\", \"arguments\": {}}''"
  let ?c = "VDict [(''name'', VStr ''f''), (''arguments'', VDict [])]"
  let ?u = "''<functioncall>{}''"
  have h1: "text_of (Text ?s) = Some ?s" by simp
  have h2: "json_loads (strip ?s) = Inl ''JSONDecodeError''" by code_simp
  have h3: "str_find ?s ''[TOOL_CALLS]'' = int 3" by code_simp
  have h4: "str_find ?s ''</s>'' = - 1" by code_simp
  have h5: "str_find ?s ''<|eom_id|>'' = - 1" by code_simp
  have h6: "json_loads (strip (drop (3 + 12) ?s)) = Inr ?c" by code_simp
  have h7: "tool_call_attempt json_loads ?s True = Passed" by code_simp
  have tk: "take 3 ?s = ''ok ''" by simp
  note first = open_ended_slice [of "Text ?s" ?s json_loads "''JSONDecodeError''" 3 ?c True False,
      OF h1 h2]
  from first h3 h4 h5 h6
  have a: "snd (extract_function_call_json json_loads (Text ?s) True False) = RetMsg ?c ''ok ''"
    unfolding tk by simp
  from first h3 h4 h5 h6 h7
  have b: "snd (extract_function_call_json_from_qwen json_loads (Text ?s) True False)
             = RetMsg ?c ''ok ''"
    unfolding tk by simp
  have g1: "text_of (Text ?u) = Some ?u" by simp
  have g2: "json_loads (strip ?u) = Inl ''JSONDecodeError''" by code_simp
  have g3: "str_find ?u ''</functioncall>'' = - 1" by code_simp
  have g4: "tool_call_attempt json_loads ?u True = Passed" by code_simp
  have g5: "bracket_attempt json_loads ?u True = Passed" by code_simp
  note second = open_ended_slice [of "Text ?u" ?u json_loads "''JSONDecodeError''" 0 VNone True False,
      OF g1 g2]
  from second g3 g4 g5
  have c: "snd (extract_function_call_json_from_qwen json_loads (Text ?u) True False)
             = RetMsg VNone ?u"
    by simp
  from h1 h2 h3 h4 h5 h6 h7 a b g1 g2 g3 g4 g5 c show ?thesis by (intro conjI)
qed

end
